theory Spec2Isabelle
  imports Complex_Main "HOL-Library.Word"
begin

section \<open>Data model\<close>

text \<open>
  The embedding follows \<^verbatim>\<open>mlx/backend/metal/binary.cpp\<close>. C++ \<^verbatim>\<open>int\<close> is a 32-bit word
  read with \<open>sint\<close>; \<^verbatim>\<open>size_t\<close>, \<^verbatim>\<open>int64_t\<close> and \<^verbatim>\<open>NS::UInteger\<close> are 64-bit words.
\<close>

type_synonym cint = "32 word"
type_synonym size_t = "64 word"

text \<open>A shape is a vector of 32-bit signed dimension sizes, a stride vector holds 64-bit entries.\<close>

type_synonym Shape = "cint list"
type_synonym Strides = "size_t list"

text \<open>Element types and devices are opaque tags here: their declarations live in other headers.\<close>

type_synonym Dtype = nat
type_synonym Device = nat

record Stream =
  index :: int
  device :: Device

text \<open>
  The array view, with the accessors the dispatcher reads: \<^verbatim>\<open>shape()\<close>, \<^verbatim>\<open>strides()\<close>,
  \<^verbatim>\<open>size()\<close> (the element count), \<^verbatim>\<open>data_size()\<close> (the storage element count), \<^verbatim>\<open>dtype()\<close>
  and \<^verbatim>\<open>primitive().stream()\<close>.
\<close>

record array =
  shape :: Shape
  strides :: Strides
  array_size :: size_t
  data_size :: size_t
  dtype :: Dtype
  primitive_stream :: Stream

datatype BinaryOpType = ScalarScalar | ScalarVector | VectorScalar | VectorVector | General

text \<open>\<^verbatim>\<open>MTL::Size\<close>: width, height, depth.\<close>

type_synonym MTL_Size = "size_t \<times> size_t \<times> size_t"

text \<open>The compiled kernel handle (\<^verbatim>\<open>MTL::ComputePipelineState\<close>) with the one capability read here.\<close>

record kernel =
  pipeline_name :: string
  maxTotalThreadsPerThreadgroup :: size_t

text \<open>\<^verbatim>\<open>set_vector_bytes\<close> is called on shapes and on stride vectors.\<close>

datatype vector_bytes = ShapeBytes Shape | StridesBytes Strides

text \<open>
  The calls made on the command encoder, each with its argument slot where it has one.
  \<^verbatim>\<open>set_bytes<int>\<close> binds a 32-bit value, \<^verbatim>\<open>set_bytes<int64_t>\<close> a 64-bit one.
\<close>

datatype encoder_command =
    set_compute_pipeline_state kernel
  | set_input_array array nat
  | set_output_array array nat
  | set_vector_bytes vector_bytes nat
  | set_bytes_int cint nat
  | set_bytes_int64 size_t nat
  | dispatch_threads MTL_Size MTL_Size

text \<open>
  The device state: for every device and stream index the calls received so far by the
  command encoder \<^verbatim>\<open>metal::device(s.device).get_command_encoder(s.index)\<close>.
\<close>

type_synonym encoders = "Device \<times> int \<Rightarrow> encoder_command list"

definition encode :: "Stream \<Rightarrow> encoder_command list \<Rightarrow> encoders \<Rightarrow> encoders" where
  "encode s cmds st = st((device s, index s) := st (device s, index s) @ cmds)"

text \<open>
  How a call ends abnormally: the exception thrown on the general path, the failed
  \<^verbatim>\<open>assert\<close> of \<^verbatim>\<open>binary_op_gpu\<close>, and the two undefined behaviours the code can reach
  (an unsigned division by zero, a vector read past its end), where the model stops.
\<close>

datatype error =
    runtime_error string
  | assertion_failed
  | division_by_zero
  | out_of_range

text \<open>
  The collaborators declared in headers outside this file, taken as parameters:
  the broadcast classifier, the stride collapser (one stride vector for each of the three
  arrays it is given), the work-per-thread heuristic, the element-type tag, the two kernel
  providers, the block-size and 2D-grid heuristics, the output allocator and the
  primitive's \<^verbatim>\<open>name()\<close>.
\<close>

datatype BitwiseBinaryOp = And | Or | Xor | LeftShift | RightShift

record backend =
  get_binary_op_type :: "array \<Rightarrow> array \<Rightarrow> BinaryOpType"
  collapse_contiguous_dims :: "array \<Rightarrow> array \<Rightarrow> array \<Rightarrow> Shape \<times> Strides \<times> Strides \<times> Strides"
  get_work_per_thread :: "Dtype \<Rightarrow> size_t \<Rightarrow> cint"
  type_to_name :: "array \<Rightarrow> string"
  get_binary_kernel :: "Device \<Rightarrow> string \<Rightarrow> Dtype \<Rightarrow> Dtype \<Rightarrow> string \<Rightarrow> kernel"
  get_binary_two_kernel :: "Device \<Rightarrow> string \<Rightarrow> Dtype \<Rightarrow> Dtype \<Rightarrow> string \<Rightarrow> kernel"
  get_block_dims :: "size_t \<Rightarrow> size_t \<Rightarrow> size_t \<Rightarrow> MTL_Size"
  get_2d_grid_dims :: "Shape \<Rightarrow> Strides \<Rightarrow> cint \<Rightarrow> MTL_Size"
  set_binary_op_output_data :: "array \<Rightarrow> array \<Rightarrow> array \<Rightarrow> BinaryOpType \<Rightarrow> array"
  name :: "BitwiseBinaryOp \<Rightarrow> string"

section \<open>Library functions\<close>

text \<open>\<^verbatim>\<open>std::to_string(int)\<close>: the decimal digits, after a minus sign for a negative value.\<close>

definition digit_char :: "nat \<Rightarrow> char" where
  "digit_char d = ''0123456789'' ! d"

fun digits10 :: "nat \<Rightarrow> string" where
  "digits10 n =
     (if n < 10 then [digit_char n] else digits10 (n div 10) @ [digit_char (n mod 10)])"

declare digits10.simps [simp del]

definition to_string :: "cint \<Rightarrow> string" where
  "to_string i =
     (if sint i < 0 then CHR ''-'' # digits10 (nat (- sint i)) else digits10 (nat (sint i)))"

text \<open>
  Modelled from the spec: \<^verbatim>\<open>concatenate\<close> is declared in a header outside this file; the
  spec builds the key by joining its parts in order, so \<^verbatim>\<open>concatenate(acc, args...)\<close> appends
  each argument to the accumulator, from left to right.
\<close>

definition concatenate :: "string \<Rightarrow> string list \<Rightarrow> string" where
  "concatenate acc args = foldl (@) acc args"

text \<open>
  \<^verbatim>\<open>INT32_MAX\<close> and \<^verbatim>\<open>UINT32_MAX\<close> as they enter the comparisons with a \<^verbatim>\<open>size_t\<close>, that is,
  converted to 64 bits.
\<close>

definition INT32_MAX :: size_t where
  "INT32_MAX = 2147483647"

definition UINT32_MAX :: size_t where
  "UINT32_MAX = 4294967295"

text \<open>
  Modelled from the spec: \<^verbatim>\<open>ceildiv\<close> is declared in a header outside this file; the spec
  gives the required thread count as the ceiling of the count divided by work-per-thread,
  a positive integer in the spec's data model. (For a zero divisor the value here is 0;
  nothing below relies on it.)
\<close>

definition ceildiv :: "size_t \<Rightarrow> size_t \<Rightarrow> size_t" where
  "ceildiv n m = word_of_nat ((unat n + unat m - 1) div unat m)"

section \<open>The variant key\<close>

definition get_kernel_name ::
  "backend \<Rightarrow> BinaryOpType \<Rightarrow> string \<Rightarrow> array \<Rightarrow> bool \<Rightarrow> cint \<Rightarrow> cint \<Rightarrow> string" where
  "get_kernel_name env bopt op a large ndim work_per_thread =
     (let kname =
        (case bopt of
           ScalarScalar \<Rightarrow> ''ss''
         | ScalarVector \<Rightarrow> ''sv''
         | VectorScalar \<Rightarrow> ''vs''
         | VectorVector \<Rightarrow> ''vv''
         | General \<Rightarrow>
             (let g = (if ndim \<le>s 3 then ''g'' @ to_string ndim
                       else concatenate ''g'' [''n'', to_string work_per_thread])
              in if large then g @ ''large'' else g));
          kname =
        (if bopt \<noteq> General \<and> bopt \<noteq> ScalarScalar
         then (if large then kname @ ''2''
               else if 1 <s work_per_thread then kname @ ''n'' else kname)
         else kname)
      in concatenate kname [''_'', op, type_to_name env a])"

section \<open>The dispatcher\<close>

text \<open>Lines 80 to 89: the \<^verbatim>\<open>maybe_collapse\<close> lambda.\<close>

definition maybe_collapse ::
  "backend \<Rightarrow> BinaryOpType \<Rightarrow> array \<Rightarrow> array \<Rightarrow> array \<Rightarrow> Shape \<times> Strides \<times> Strides \<times> Strides" where
  "maybe_collapse env bopt a b out =
     (if bopt = General then collapse_contiguous_dims env a b out else ([], [], [], []))"

text \<open>Lines 91 to 101: the choice of \<^verbatim>\<open>large\<close> and \<^verbatim>\<open>work_per_thread\<close>.\<close>

definition select_width ::
  "backend \<Rightarrow> BinaryOpType \<Rightarrow> array \<Rightarrow> array \<Rightarrow> array \<Rightarrow> bool \<times> cint" where
  "select_width env bopt a b out =
     (if bopt = General
      then (let large = (INT32_MAX < data_size a \<or> INT32_MAX < data_size b \<or>
                         INT32_MAX < array_size out)
            in (large, if large then 4 else 2))
      else (UINT32_MAX < data_size out, get_work_per_thread env (dtype a) (data_size out)))"

text \<open>
  Lines 123 and 124: the two innermost dimensions, converted from \<^verbatim>\<open>int\<close> to \<^verbatim>\<open>size_t\<close>
  (sign extension).
\<close>

definition general_dim0 :: "Shape \<Rightarrow> size_t" where
  "general_dim0 cshape = (if 0 < length cshape then scast (cshape ! (length cshape - 1)) else 1)"

definition general_dim1 :: "Shape \<Rightarrow> size_t" where
  "general_dim1 cshape = (if 1 < length cshape then scast (cshape ! (length cshape - 2)) else 1)"

text \<open>
  Lines 102 to 108: the variant key (the rank enters \<^verbatim>\<open>get_kernel_name\<close> as an \<^verbatim>\<open>int\<close>) and
  the kernel resolved for it, by the two-output provider when there are exactly two outputs.
\<close>

definition resolve_kernel ::
  "backend \<Rightarrow> BinaryOpType \<Rightarrow> string \<Rightarrow> array \<Rightarrow> array \<Rightarrow> nat \<Rightarrow> bool \<Rightarrow> nat \<Rightarrow> cint \<Rightarrow> Device \<Rightarrow>
   kernel" where
  "resolve_kernel env bopt op a out outputs_size large ndim work_per_thread d =
     (let kernel_name = get_kernel_name env bopt op a large (word_of_nat ndim) work_per_thread
      in if outputs_size = 2
         then get_binary_two_kernel env d kernel_name (dtype a) (dtype out) op
         else get_binary_kernel env d kernel_name (dtype a) (dtype out) op)"

text \<open>
  \<^verbatim>\<open>binary_op_gpu_inplace(inputs, outputs, op, s)\<close>. The encoder calls are collected in
  \<open>enc\<close> and reach the stream's encoder wherever the function leaves. \<^verbatim>\<open>inputs[0]\<close>,
  \<^verbatim>\<open>inputs[1]\<close> and \<^verbatim>\<open>outputs[0]\<close> are read without a check: on shorter vectors the model
  stops with \<open>out_of_range\<close>. The division of line 125 has no check either: on a zero
  divisor the model stops with \<open>division_by_zero\<close>.
\<close>

fun binary_op_gpu_inplace ::
  "backend \<Rightarrow> array list \<Rightarrow> array list \<Rightarrow> string \<Rightarrow> Stream \<Rightarrow> encoders \<Rightarrow> error option \<times> encoders" where
  "binary_op_gpu_inplace env (a # b # ins) (out # outs) op s st =
     (let bopt = get_binary_op_type env a b in
      if array_size out = 0 then (None, st)
      else
        let (cshape, strides_a, strides_b, strides_out) = maybe_collapse env bopt a b out;
            ndim = length cshape;
            (large, work_per_thread) = select_width env bopt a b out;
            kernel =
              resolve_kernel env bopt op a out (length (out # outs)) large ndim work_per_thread
                (device s);
            enc = [set_compute_pipeline_state kernel,
                   set_input_array a 0, set_input_array b 1, set_output_array out 2];
            (enc, arg_idx) =
              (if length (out # outs) = 2 then (enc @ [set_output_array (outs ! 0) 3], 4)
               else (enc, 3));
            thread_group_size = maxTotalThreadsPerThreadgroup kernel
        in
          if bopt = General then
            let dim0 = general_dim0 cshape;
                dim1 = general_dim1 cshape
            in
              if dim0 * dim1 = 0 then (Some division_by_zero, encode s enc st)
              else
                let rest = array_size out div (dim0 * dim1);
                    (enc, dim0) =
                      (if 3 < ndim
                       then (enc @ [set_vector_bytes (ShapeBytes cshape) arg_idx,
                                    set_vector_bytes (StridesBytes strides_a) (arg_idx + 1),
                                    set_vector_bytes (StridesBytes strides_b) (arg_idx + 2),
                                    set_bytes_int (word_of_nat ndim) (arg_idx + 3)],
                             (dim0 + scast work_per_thread - 1) div scast work_per_thread)
                       else (enc @ [set_vector_bytes (StridesBytes strides_a) arg_idx,
                                    set_vector_bytes (StridesBytes strides_b) (arg_idx + 1)],
                             dim0))
                in
                  if thread_group_size \<noteq> 1024
                  then (Some (runtime_error ''[Metal::binary] Must use 1024 sized block''),
                        encode s enc st)
                  else
                    let group_dims = get_block_dims env dim0 dim1 rest;
                        grid_dims = (dim0, dim1, rest)
                    in (None, encode s (enc @ [dispatch_threads grid_dims group_dims]) st)
          else
            let nthreads = ceildiv (data_size out) (scast work_per_thread);
                thread_group_size =
                  (if nthreads < thread_group_size then nthreads else thread_group_size);
                group_dims = (thread_group_size, 1, 1);
                (enc, grid_dims) =
                  (if large
                   then (enc @ [set_bytes_int64 (data_size out) arg_idx],
                         get_2d_grid_dims env (shape out) (strides out) work_per_thread)
                   else (enc @ [set_bytes_int (ucast (data_size out)) arg_idx],
                         (nthreads, 1, 1)))
            in (None, encode s (enc @ [dispatch_threads grid_dims group_dims]) st))"
| "binary_op_gpu_inplace env ins outs op s st = (Some out_of_range, st)"

text \<open>\<^verbatim>\<open>binary_op_gpu_inplace(inputs, out, op, s)\<close>: the single output as a vector of one.\<close>

definition binary_op_gpu_inplace_single ::
  "backend \<Rightarrow> array list \<Rightarrow> array \<Rightarrow> string \<Rightarrow> Stream \<Rightarrow> encoders \<Rightarrow> error option \<times> encoders" where
  "binary_op_gpu_inplace_single env inputs out op s st =
     binary_op_gpu_inplace env inputs [out] op s st"

text \<open>
  \<^verbatim>\<open>binary_op_gpu(inputs, out, op, s)\<close>: the assertion, the classification, the allocation
  of the output (returned with the result, since \<^verbatim>\<open>out\<close> is passed by reference), then the
  in-place dispatch.
\<close>

definition binary_op_gpu_stream ::
  "backend \<Rightarrow> array list \<Rightarrow> array \<Rightarrow> string \<Rightarrow> Stream \<Rightarrow> encoders \<Rightarrow>
   error option \<times> array \<times> encoders" where
  "binary_op_gpu_stream env inputs out op s st =
     (if length inputs \<noteq> 2 then (Some assertion_failed, out, st)
      else
        let a = inputs ! 0;
            b = inputs ! 1;
            bopt = get_binary_op_type env a b;
            out' = set_binary_op_output_data env a b out bopt;
            (r, st') = binary_op_gpu_inplace_single env inputs out' op s st
        in (r, out', st'))"

text \<open>\<^verbatim>\<open>binary_op_gpu(inputs, out, op)\<close>: on the stream of the output's primitive.\<close>

definition binary_op_gpu ::
  "backend \<Rightarrow> array list \<Rightarrow> array \<Rightarrow> string \<Rightarrow> encoders \<Rightarrow> error option \<times> array \<times> encoders" where
  "binary_op_gpu env inputs out op st =
     binary_op_gpu_stream env inputs out op (primitive_stream out) st"

text \<open>\<^verbatim>\<open>BitwiseBinary::eval_gpu\<close>: the switch on the operator \<^verbatim>\<open>op_\<close>.\<close>

definition BitwiseBinary_eval_gpu ::
  "backend \<Rightarrow> BitwiseBinaryOp \<Rightarrow> array list \<Rightarrow> array \<Rightarrow> encoders \<Rightarrow>
   error option \<times> array \<times> encoders" where
  "BitwiseBinary_eval_gpu env op' inputs out st =
     (case op' of
        And \<Rightarrow> binary_op_gpu env inputs out (name env op') st
      | Or \<Rightarrow> binary_op_gpu env inputs out (name env op') st
      | Xor \<Rightarrow> binary_op_gpu env inputs out (name env op') st
      | LeftShift \<Rightarrow> binary_op_gpu env inputs out (name env op') st
      | RightShift \<Rightarrow> binary_op_gpu env inputs out (name env op') st)"

section \<open>Observing a dispatch\<close>

text \<open>The calls a dispatch appended to the encoder of stream \<open>s\<close>, between two device states.\<close>

definition issued :: "Stream \<Rightarrow> encoders \<Rightarrow> encoders \<Rightarrow> encoder_command list" where
  "issued s st st' = drop (length (st (device s, index s))) (st' (device s, index s))"

text \<open>The kernel submissions among a sequence of encoder calls: grid and thread-group sizes.\<close>

fun submissions :: "encoder_command list \<Rightarrow> (MTL_Size \<times> MTL_Size) list" where
  "submissions [] = []"
| "submissions (dispatch_threads grid_dims group_dims # cmds) =
     (grid_dims, group_dims) # submissions cmds"
| "submissions (c # cmds) = submissions cmds"

text \<open>The argument bindings among a sequence of encoder calls, in the order they were made.\<close>

fun is_binding :: "encoder_command \<Rightarrow> bool" where
  "is_binding (set_compute_pipeline_state k) = False"
| "is_binding (dispatch_threads grid_dims group_dims) = False"
| "is_binding c = True"

definition bindings :: "encoder_command list \<Rightarrow> encoder_command list" where
  "bindings cmds = filter is_binding cmds"

text \<open>
  The bindings of lines 113 to 118: the two operands, the output, then the second output
  when there are exactly two outputs; and the slot that follows them.
\<close>

definition bound_arrays ::
  "array \<Rightarrow> array \<Rightarrow> array \<Rightarrow> array list \<Rightarrow> encoder_command list" where
  "bound_arrays a b out outs =
     [set_input_array a 0, set_input_array b 1, set_output_array out 2] @
     (if length outs = 1 then [set_output_array (outs ! 0) 3] else [])"

definition next_slot :: "array list \<Rightarrow> nat" where
  "next_slot outs = (if length outs = 1 then 4 else 3)"

text \<open>The kernel a dispatch resolves, from the operands, the outputs, the operator and the stream.\<close>

definition dispatch_kernel ::
  "backend \<Rightarrow> array \<Rightarrow> array \<Rightarrow> array \<Rightarrow> array list \<Rightarrow> string \<Rightarrow> Stream \<Rightarrow> kernel" where
  "dispatch_kernel env a b out outs op s =
     (let bopt = get_binary_op_type env a b
      in resolve_kernel env bopt op a out (Suc (length outs))
           (fst (select_width env bopt a b out))
           (length (fst (maybe_collapse env bopt a b out)))
           (snd (select_width env bopt a b out)) (device s))"

text \<open>
  The part of the variant key in front of the underscore: the category tag with its rank
  and width marks.
\<close>

definition variant_prefix :: "BinaryOpType \<Rightarrow> bool \<Rightarrow> cint \<Rightarrow> cint \<Rightarrow> string" where
  "variant_prefix bopt large ndim wpt =
     (case bopt of
        ScalarScalar \<Rightarrow> ''ss''
      | ScalarVector \<Rightarrow> ''sv'' @ (if large then ''2'' else if 1 <s wpt then ''n'' else [])
      | VectorScalar \<Rightarrow> ''vs'' @ (if large then ''2'' else if 1 <s wpt then ''n'' else [])
      | VectorVector \<Rightarrow> ''vv'' @ (if large then ''2'' else if 1 <s wpt then ''n'' else [])
      | General \<Rightarrow> ''g'' @ (if ndim \<le>s 3 then to_string ndim else ''n'' @ to_string wpt) @
                   (if large then ''large'' else []))"

section \<open>Example inputs\<close>

text \<open>
  A concrete backend on which the dispatcher can be evaluated: a classifier by storage
  size and layout, a collapser that merges nothing, a work-per-thread of 1 below 65536
  elements and 2 from there on, one element-type tag, and kernels whose maximum threads
  per group is the parameter.
\<close>

definition example_backend :: "size_t \<Rightarrow> backend" where
  "example_backend max_threads =
     \<lparr> get_binary_op_type = (\<lambda>a b.
          if data_size a = 1 \<and> data_size b = 1 then ScalarScalar
          else if data_size a = 1 then ScalarVector
          else if data_size b = 1 then VectorScalar
          else if shape a = shape b \<and> strides a = strides b then VectorVector
          else General),
       collapse_contiguous_dims = (\<lambda>a b out. (shape out, strides a, strides b, strides out)),
       get_work_per_thread = (\<lambda>t n. if n < 65536 then 1 else 2),
       type_to_name = (\<lambda>a. ''float32''),
       get_binary_kernel = (\<lambda>d k t1 t2 opn.
          \<lparr> pipeline_name = k, maxTotalThreadsPerThreadgroup = max_threads \<rparr>),
       get_binary_two_kernel = (\<lambda>d k t1 t2 opn.
          \<lparr> pipeline_name = k, maxTotalThreadsPerThreadgroup = max_threads \<rparr>),
       get_block_dims = (\<lambda>d0 d1 d2. (1, 1, 1)),
       get_2d_grid_dims = (\<lambda>sh st w. (1, 1, 1)),
       set_binary_op_output_data = (\<lambda>a b out bopt. out),
       name = (\<lambda>bo. ''BitwiseBinary'') \<rparr>"

text \<open>An array with the given shape, strides, element count and storage element count.\<close>

definition example_array :: "Shape \<Rightarrow> Strides \<Rightarrow> size_t \<Rightarrow> size_t \<Rightarrow> array" where
  "example_array sh st n dn =
     \<lparr> shape = sh, strides = st, array_size = n, data_size = dn, dtype = 0,
       primitive_stream = \<lparr> index = 0, device = 0 \<rparr> \<rparr>"

definition example_stream :: Stream where
  "example_stream = \<lparr> index = 0, device = 0 \<rparr>"

section \<open>Auxiliary facts\<close>

subsection \<open>Ceiling division on naturals and on 64-bit words\<close>

lemma ceiling_div_nat:
  fixes n m :: nat
  assumes "0 < m"
  shows "int ((n + m - 1) div m) = \<lceil>real n / real m\<rceil>"
proof -
  define q where "q = (n + m - 1) div m"
  have lo: "real n \<le> real q * real m"
  proof -
    have "n + m - 1 < m + q * m"
      unfolding q_def using dividend_less_div_times [OF assms, of "n + m - 1"] by simp
    then have "n \<le> q * m" using assms by simp
    then have "real n \<le> real (q * m)" by (simp only: of_nat_le_iff)
    then show ?thesis by simp
  qed
  have hi: "real q * real m < real n + real m"
  proof -
    have "q * m \<le> n + m - 1" unfolding q_def by simp
    then have "q * m < n + m" using assms by linarith
    then have "real (q * m) < real (n + m)" by (simp only: of_nat_less_iff)
    then show ?thesis by simp
  qed
  have "\<lceil>real n / real m\<rceil> = int q"
  proof (rule ceiling_unique)
    show "real_of_int (int q) - 1 < real n / real m"
      using hi assms by (simp add: field_simps)
    show "real n / real m \<le> real_of_int (int q)"
      using lo assms by (simp add: field_simps)
  qed
  then show ?thesis by (simp add: q_def)
qed

lemma unat_scast_nonneg:
  fixes d :: "32 word"
  assumes "0 \<le> sint d"
  shows "unat (scast d :: 64 word) = nat (sint d)"
proof -
  have b: "sint d < 2 ^ 31" using sint_lt [of d] by simp
  have "scast d = (word_of_int (sint d) :: 64 word)" by (rule scast_eq)
  also have "\<dots> = word_of_nat (nat (sint d))" using assms by simp
  finally have e: "scast d = (word_of_nat (nat (sint d)) :: 64 word)" .
  have "nat (sint d) < 2 ^ 64" using b assms by (simp add: nat_less_iff)
  then show ?thesis unfolding e by (simp add: unat_of_nat)
qed

lemma unat_scast_bound:
  fixes d :: "32 word"
  assumes "0 \<le> sint d"
  shows "unat (scast d :: 64 word) < 2 ^ 31"
  using unat_scast_nonneg [OF assms] sint_lt [of d] assms by (simp add: nat_less_iff)

lemma unat_ceil_word:
  fixes x w :: "64 word"
  assumes "unat x < 2 ^ 31" and "0 < unat w" and "unat w < 2 ^ 31"
  shows "unat ((x + w - 1) div w) = (unat x + unat w - 1) div unat w"
proof -
  have w0: "w \<noteq> 0" using assms(2) by auto
  have m1: "unat (w - 1) = unat w - 1" using w0 by (rule unat_minus_one)
  have "unat x + unat (w - 1) < 2 ^ 64" using assms m1 by simp
  then have "unat (x + (w - 1)) = unat x + unat (w - 1)"
    using unat_add_lem [of x "w - 1"] by simp
  then have "unat (x + w - 1) = unat x + unat w - 1"
    using m1 assms(2) by (simp add: add_diff_eq)
  then show ?thesis by (simp add: unat_div)
qed

lemma unat_mult_small:
  fixes x y :: "64 word"
  assumes "unat x < 2 ^ 31" and "unat y < 2 ^ 31"
  shows "unat (x * y) = unat x * unat y"
proof -
  have "unat x * unat y < 2 ^ 31 * 2 ^ 31"
    using assms by (intro mult_strict_mono) simp_all
  then have "unat x * unat y < 2 ^ 64" by simp
  then show ?thesis using unat_mult_lem [of x y] by simp
qed

lemma unat_ceildiv:
  fixes n m :: "64 word"
  assumes "0 < unat m"
  shows "unat (ceildiv n m) = (unat n + unat m - 1) div unat m"
proof -
  have "(unat n + unat m - 1) div unat m \<le> unat n"
  proof (cases "unat n = 0")
    case True
    then show ?thesis using assms by simp
  next
    case False
    have "(unat n + unat m - 1) div unat m \<le> (unat n * unat m) div unat m"
    proof (rule div_le_mono)
      have "unat n + unat m - 1 \<le> unat n + unat m - 1 + (unat n - 1) * (unat m - 1)"
        by simp
      also have "\<dots> = unat n * unat m"
        using False assms by (cases "unat n"; cases "unat m") (simp_all add: algebra_simps)
      finally show "unat n + unat m - 1 \<le> unat n * unat m" .
    qed
    then show ?thesis using assms by simp
  qed
  moreover have "unat n < 2 ^ 64" using unsigned_less [of n] by simp
  ultimately have "(unat n + unat m - 1) div unat m < 2 ^ 64" by linarith
  then show ?thesis by (simp add: ceildiv_def unat_of_nat)
qed

subsection \<open>The encoder state\<close>

lemma issued_encode: "issued s st (encode s cmds st) = cmds"
  by (simp add: issued_def encode_def)

lemma issued_same: "issued s st st = []"
  by (simp add: issued_def)

lemma encode_other: "k \<noteq> (device s, index s) \<Longrightarrow> encode s cmds st k = st k"
  by (simp add: encode_def)

lemma encode_same: "encode s cmds st (device s, index s) = st (device s, index s) @ cmds"
  by (simp add: encode_def)

subsection \<open>The three ways through the dispatcher\<close>

lemma inplace_empty:
  "array_size out = 0 \<Longrightarrow>
   binary_op_gpu_inplace env (a # b # ins) (out # outs) op s st = (None, st)"
  by simp

lemma inplace_general:
  assumes "get_binary_op_type env a b = General" and "array_size out \<noteq> 0"
    and "collapse_contiguous_dims env a b out = (cshape, sa, sb, so)"
    and "general_dim0 cshape * general_dim1 cshape \<noteq> 0"
    and "select_width env General a b out = (large, wpt)"
    and "k = dispatch_kernel env a b out outs op s"
  shows "binary_op_gpu_inplace env (a # b # ins) (out # outs) op s st =
    (let d0 = general_dim0 cshape;
         d1 = general_dim1 cshape;
         rest = array_size out div (d0 * d1);
         n = next_slot outs;
         args = (if 3 < length cshape
                 then [set_vector_bytes (ShapeBytes cshape) n,
                       set_vector_bytes (StridesBytes sa) (n + 1),
                       set_vector_bytes (StridesBytes sb) (n + 2),
                       set_bytes_int (word_of_nat (length cshape)) (n + 3)]
                 else [set_vector_bytes (StridesBytes sa) n,
                       set_vector_bytes (StridesBytes sb) (n + 1)]);
         g0 = (if 3 < length cshape then (d0 + scast wpt - 1) div scast wpt else d0);
         cmds = set_compute_pipeline_state k # bound_arrays a b out outs @ args
     in if maxTotalThreadsPerThreadgroup k \<noteq> 1024
        then (Some (runtime_error ''[Metal::binary] Must use 1024 sized block''),
              encode s cmds st)
        else (None, encode s (cmds @ [dispatch_threads (g0, d1, rest)
                                        (get_block_dims env g0 d1 rest)]) st))"
  using assms
  by (simp add: maybe_collapse_def dispatch_kernel_def Let_def bound_arrays_def next_slot_def)

lemma inplace_general_stop:
  assumes "get_binary_op_type env a b = General" and "array_size out \<noteq> 0"
    and "collapse_contiguous_dims env a b out = (cshape, sa, sb, so)"
    and "general_dim0 cshape * general_dim1 cshape = 0"
    and "k = dispatch_kernel env a b out outs op s"
  shows "binary_op_gpu_inplace env (a # b # ins) (out # outs) op s st =
     (Some division_by_zero,
      encode s (set_compute_pipeline_state k # bound_arrays a b out outs) st)"
  using assms
  by (simp add: maybe_collapse_def dispatch_kernel_def Let_def bound_arrays_def next_slot_def
      split_def)

lemma inplace_compact:
  assumes "get_binary_op_type env a b \<noteq> General" and "array_size out \<noteq> 0"
    and "select_width env (get_binary_op_type env a b) a b out = (large, wpt)"
    and "k = dispatch_kernel env a b out outs op s"
  shows "binary_op_gpu_inplace env (a # b # ins) (out # outs) op s st =
    (let nthreads = ceildiv (data_size out) (scast wpt);
         tgs = (if nthreads < maxTotalThreadsPerThreadgroup k then nthreads
                else maxTotalThreadsPerThreadgroup k);
         n = next_slot outs;
         cmds = set_compute_pipeline_state k # bound_arrays a b out outs
     in (None, encode s (cmds @
          (if large
           then [set_bytes_int64 (data_size out) n,
                 dispatch_threads (get_2d_grid_dims env (shape out) (strides out) wpt)
                   (tgs, 1, 1)]
           else [set_bytes_int (ucast (data_size out)) n,
                 dispatch_threads (nthreads, 1, 1) (tgs, 1, 1)])) st))"
  using assms
  by (simp add: maybe_collapse_def dispatch_kernel_def Let_def bound_arrays_def next_slot_def)

declare binary_op_gpu_inplace.simps [simp del]

lemma submissions_append: "submissions (xs @ ys) = submissions xs @ submissions ys"
  by (induction xs rule: submissions.induct) simp_all

lemma submissions_bound_arrays: "submissions (bound_arrays a b out outs) = []"
  by (simp add: bound_arrays_def)

lemma bindings_append: "bindings (xs @ ys) = bindings xs @ bindings ys"
  by (simp add: bindings_def)

lemma bindings_bound_arrays: "bindings (bound_arrays a b out outs) = bound_arrays a b out outs"
  by (simp add: bound_arrays_def bindings_def)

text \<open>Every way through the dispatcher appends to the encoder of the stream, and only there.\<close>

lemma inplace_cases:
  obtains
    (empty) "array_size out = 0"
      "binary_op_gpu_inplace env (a # b # ins) (out # outs) op s st = (None, st)"
  | (stop) cmds where "array_size out \<noteq> 0" "get_binary_op_type env a b = General"
      "general_dim0 (fst (collapse_contiguous_dims env a b out)) *
       general_dim1 (fst (collapse_contiguous_dims env a b out)) = 0"
      "binary_op_gpu_inplace env (a # b # ins) (out # outs) op s st =
         (Some division_by_zero, encode s cmds st)"
      "submissions cmds = []"
  | (abort) cmds where "array_size out \<noteq> 0" "get_binary_op_type env a b = General"
      "general_dim0 (fst (collapse_contiguous_dims env a b out)) *
       general_dim1 (fst (collapse_contiguous_dims env a b out)) \<noteq> 0"
      "maxTotalThreadsPerThreadgroup (dispatch_kernel env a b out outs op s) \<noteq> 1024"
      "binary_op_gpu_inplace env (a # b # ins) (out # outs) op s st =
         (Some (runtime_error ''[Metal::binary] Must use 1024 sized block''), encode s cmds st)"
      "submissions cmds = []"
  | (general) cmds where "array_size out \<noteq> 0" "get_binary_op_type env a b = General"
      "general_dim0 (fst (collapse_contiguous_dims env a b out)) *
       general_dim1 (fst (collapse_contiguous_dims env a b out)) \<noteq> 0"
      "maxTotalThreadsPerThreadgroup (dispatch_kernel env a b out outs op s) = 1024"
      "binary_op_gpu_inplace env (a # b # ins) (out # outs) op s st = (None, encode s cmds st)"
      "length (submissions cmds) = 1"
  | (compact) cmds where "array_size out \<noteq> 0" "get_binary_op_type env a b \<noteq> General"
      "binary_op_gpu_inplace env (a # b # ins) (out # outs) op s st = (None, encode s cmds st)"
      "length (submissions cmds) = 1"
proof -
  obtain cshape sa sb so where c: "collapse_contiguous_dims env a b out = (cshape, sa, sb, so)"
    by (cases "collapse_contiguous_dims env a b out") auto
  obtain large wpt where w: "select_width env (get_binary_op_type env a b) a b out = (large, wpt)"
    by (cases "select_width env (get_binary_op_type env a b) a b out") auto
  define k where "k = dispatch_kernel env a b out outs op s"
  show thesis
  proof (cases "array_size out = 0")
    case True
    then show ?thesis using empty [OF True inplace_empty [OF True]] by blast
  next
    case nonempty: False
    show ?thesis
    proof (cases "get_binary_op_type env a b = General")
      case g: True
      show ?thesis
      proof (cases "general_dim0 cshape * general_dim1 cshape = 0")
        case True
        show ?thesis
          using stop [OF nonempty g _ inplace_general_stop [OF g nonempty c True k_def]] True c
          by (simp add: submissions_bound_arrays)
      next
        case nz: False
        define args where "args =
          (if 3 < length cshape
           then [set_vector_bytes (ShapeBytes cshape) (next_slot outs),
                 set_vector_bytes (StridesBytes sa) (next_slot outs + 1),
                 set_vector_bytes (StridesBytes sb) (next_slot outs + 2),
                 set_bytes_int (word_of_nat (length cshape)) (next_slot outs + 3)]
           else [set_vector_bytes (StridesBytes sa) (next_slot outs),
                 set_vector_bytes (StridesBytes sb) (next_slot outs + 1)])"
        define cmds where "cmds = set_compute_pipeline_state k # bound_arrays a b out outs @ args"
        have sub: "submissions cmds = []"
          by (simp add: cmds_def args_def submissions_append submissions_bound_arrays)
        note r = inplace_general [OF g nonempty c nz w [unfolded g] k_def, of ins st,
            unfolded Let_def, folded args_def, folded cmds_def]
        show ?thesis
        proof (cases "maxTotalThreadsPerThreadgroup k = 1024")
          case True
          have "binary_op_gpu_inplace env (a # b # ins) (out # outs) op s st =
                (None, encode s (cmds @ [dispatch_threads
                   (if 3 < length cshape
                    then (general_dim0 cshape + scast wpt - 1) div scast wpt
                    else general_dim0 cshape, general_dim1 cshape,
                    array_size out div (general_dim0 cshape * general_dim1 cshape))
                   (get_block_dims env
                    (if 3 < length cshape
                    then (general_dim0 cshape + scast wpt - 1) div scast wpt
                    else general_dim0 cshape) (general_dim1 cshape)
                    (array_size out div (general_dim0 cshape * general_dim1 cshape)))]) st)"
            using r True by simp
          then show ?thesis
            using general [OF nonempty g] nz c True sub
            by (simp add: k_def submissions_append)
        next
          case False
          have "binary_op_gpu_inplace env (a # b # ins) (out # outs) op s st =
                (Some (runtime_error ''[Metal::binary] Must use 1024 sized block''),
                 encode s cmds st)"
            using r False by simp
          then show ?thesis
            using abort [OF nonempty g] nz c False sub by (simp add: k_def)
        qed
      qed
    next
      case ng: False
      define cmds where "cmds = set_compute_pipeline_state k # bound_arrays a b out outs"
      have sub: "submissions cmds = []"
        by (simp add: cmds_def submissions_bound_arrays)
      note r = inplace_compact [OF ng nonempty w k_def, of ins st, unfolded Let_def,
          folded cmds_def]
      show ?thesis
      proof (cases large)
        case True
        then show ?thesis
          using compact [OF nonempty ng] r sub by (simp add: submissions_append)
      next
        case False
        then show ?thesis
          using compact [OF nonempty ng] r sub by (simp add: submissions_append)
      qed
    qed
  qed
qed

subsection \<open>The grid of the general path\<close>

lemma general_dims_positive:
  assumes "\<forall>d \<in> set cshape. 0 <s d"
  shows "unat (general_dim0 cshape) = (if cshape = [] then 1 else nat (sint (last cshape)))"
    and "unat (general_dim1 cshape) =
           (if length cshape < 2 then 1 else nat (sint (cshape ! (length cshape - 2))))"
    and "0 < unat (general_dim0 cshape)" and "unat (general_dim0 cshape) < 2 ^ 31"
    and "0 < unat (general_dim1 cshape)" and "unat (general_dim1 cshape) < 2 ^ 31"
proof -
  have pos: "0 < sint (cshape ! i)" if "i < length cshape" for i
    using assms that by (auto simp: word_sless_alt)
  have small: "nat (sint x) < 2 ^ 31" for x :: "32 word"
    using sint_lt [of x] by (cases "0 \<le> sint x") (simp_all add: nat_less_iff)
  show d0: "unat (general_dim0 cshape) = (if cshape = [] then 1 else nat (sint (last cshape)))"
  proof (cases "cshape = []")
    case True
    then show ?thesis by (simp add: general_dim0_def)
  next
    case False
    then have "0 \<le> sint (cshape ! (length cshape - 1))" using pos [of "length cshape - 1"] by simp
    then show ?thesis using False
      by (simp add: general_dim0_def unat_scast_nonneg last_conv_nth)
  qed
  show d1: "unat (general_dim1 cshape) =
           (if length cshape < 2 then 1 else nat (sint (cshape ! (length cshape - 2))))"
  proof (cases "length cshape < 2")
    case True
    then show ?thesis by (simp add: general_dim1_def)
  next
    case False
    then have "length cshape - 2 < length cshape" by simp
    then have "0 \<le> sint (cshape ! (length cshape - 2))" using pos [of "length cshape - 2"] by simp
    then show ?thesis using False
      by (simp add: general_dim1_def unat_scast_nonneg)
  qed
  show "0 < unat (general_dim0 cshape)"
    unfolding d0 using pos [of "length cshape - 1"] by (simp add: last_conv_nth)
  show "unat (general_dim0 cshape) < 2 ^ 31"
    unfolding d0 using small [of "last cshape"] by simp
  show "0 < unat (general_dim1 cshape)"
  proof (cases "length cshape < 2")
    case True
    then show ?thesis unfolding d1 by simp
  next
    case False
    then have "length cshape - 2 < length cshape" by simp
    then show ?thesis unfolding d1 using pos [of "length cshape - 2"] False by simp
  qed
  show "unat (general_dim1 cshape) < 2 ^ 31"
    unfolding d1 using small [of "cshape ! (length cshape - 2)"] by simp
qed

lemma general_work_per_thread:
  "select_width env General a b out = (large, wpt) \<Longrightarrow>
   sint wpt = (if large then 4 else 2) \<and> unat (scast wpt :: 64 word) = (if large then 4 else 2)"
  by (auto simp: select_width_def Let_def)


subsection \<open>Decimal rendering and the variant key\<close>

lemma digit_char_in: "d < 10 \<Longrightarrow> digit_char d \<in> set ''0123456789''"
  unfolding digit_char_def by (rule nth_mem) simp

lemma digit_char_inj:
  assumes "a < 10" and "b < 10" and "digit_char a = digit_char b"
  shows "a = b"
proof -
  have d: "distinct ''0123456789''" by simp
  have la: "a < length ''0123456789''" and lb: "b < length ''0123456789''"
    using assms by simp_all
  have "''0123456789'' ! a = ''0123456789'' ! b" using assms(3) by (simp only: digit_char_def)
  then show ?thesis by (simp only: nth_eq_iff_index_eq [OF d la lb])
qed

lemma digits10_small: "n < 10 \<Longrightarrow> digits10 n = [digit_char n]"
  by (subst digits10.simps) simp

lemma digits10_large:
  "\<not> n < 10 \<Longrightarrow> digits10 n = digits10 (n div 10) @ [digit_char (n mod 10)]"
  by (subst digits10.simps) simp

lemma digits10_nonempty: "digits10 n \<noteq> []"
  by (cases "n < 10") (simp_all add: digits10_small digits10_large)

lemma digits10_chars: "set (digits10 n) \<subseteq> set ''0123456789''"
proof (induction n rule: digits10.induct)
  case (1 n)
  show ?case
  proof (cases "n < 10")
    case True
    then show ?thesis using digit_char_in [of n] by (simp add: digits10_small)
  next
    case False
    have "digit_char (n mod 10) \<in> set ''0123456789''" by (rule digit_char_in) simp
    then show ?thesis using "1.IH" [OF False] False by (simp add: digits10_large)
  qed
qed

lemma digits10_inj: "digits10 n = digits10 m \<Longrightarrow> n = m"
proof (induction n arbitrary: m rule: digits10.induct)
  case (1 n)
  show ?case
  proof (cases "n < 10")
    case True
    have "m < 10"
    proof (rule ccontr)
      assume "\<not> m < 10"
      then have "digits10 (m div 10) = []"
        using "1.prems" True by (simp add: digits10_small digits10_large)
      then show False using digits10_nonempty by blast
    qed
    then show ?thesis
      using "1.prems" True digit_char_inj [of n m] by (simp add: digits10_small)
  next
    case False
    have m: "\<not> m < 10"
    proof
      assume "m < 10"
      then have "digits10 (n div 10) = []"
        using "1.prems" False by (simp add: digits10_small digits10_large)
      then show False using digits10_nonempty by blast
    qed
    have e: "digits10 (n div 10) = digits10 (m div 10)"
      and c: "digit_char (n mod 10) = digit_char (m mod 10)"
      using "1.prems" False m by (simp_all add: digits10_large)
    have q: "n div 10 = m div 10" using "1.IH" [OF False e] .
    have r: "n mod 10 = m mod 10" using c by (intro digit_char_inj) simp_all
    have "n = 10 * (n div 10) + n mod 10" by simp
    also have "\<dots> = 10 * (m div 10) + m mod 10" by (simp only: q r)
    also have "\<dots> = m" by simp
    finally show ?thesis .
  qed
qed

lemma to_string_nonempty: "to_string i \<noteq> []"
  by (simp add: to_string_def digits10_nonempty)

lemma digits10_not: "c \<notin> set ''0123456789'' \<Longrightarrow> c \<notin> set (digits10 n)"
  using digits10_chars [of n] by blast

lemma to_string_not:
  assumes "c \<notin> set ''-0123456789''"
  shows "c \<notin> set (to_string i)"
proof -
  have 1: "c \<noteq> CHR ''-''" using assms by simp
  have 2: "c \<notin> set ''0123456789''" using assms by simp
  show ?thesis using 1 digits10_not [OF 2] by (simp add: to_string_def)
qed

lemma to_string_inj: "to_string i = to_string j \<Longrightarrow> i = j"
proof -
  assume e: "to_string i = to_string j"
  have nm: "CHR ''-'' \<notin> set (digits10 k)" for k by (rule digits10_not) simp
  have hd: False if "CHR ''-'' # xs = digits10 k" for k xs
    using nm [of k] unfolding that [symmetric] by simp
  have "sint i = sint j"
  proof (cases "sint i < 0")
    case True
    have j: "sint j < 0"
    proof (rule ccontr)
      assume "\<not> sint j < 0"
      then have "CHR ''-'' # digits10 (nat (- sint i)) = digits10 (nat (sint j))"
        using e True by (simp add: to_string_def)
      then show False by (rule hd)
    qed
    then have "digits10 (nat (- sint i)) = digits10 (nat (- sint j))"
      using e True by (simp add: to_string_def)
    then have "nat (- sint i) = nat (- sint j)" by (rule digits10_inj)
    then show ?thesis using True j by simp
  next
    case False
    have j: "\<not> sint j < 0"
    proof
      assume "sint j < 0"
      then have "CHR ''-'' # digits10 (nat (- sint j)) = digits10 (nat (sint i))"
        using e False by (simp add: to_string_def)
      then show False by (rule hd)
    qed
    then have "digits10 (nat (sint i)) = digits10 (nat (sint j))"
      using e False by (simp add: to_string_def)
    then have "nat (sint i) = nat (sint j)" by (rule digits10_inj)
    then show ?thesis using False j by simp
  qed
  then show "i = j" by (rule signed_word_eqI)
qed

lemma split_at_underscore:
  assumes "CHR ''_'' \<notin> set p" and "CHR ''_'' \<notin> set q"
  shows "p @ CHR ''_'' # r = q @ CHR ''_'' # t \<longleftrightarrow> p = q \<and> r = t"
  using assms
proof (induction p arbitrary: q)
  case Nil
  then show ?case by (cases q) auto
next
  case (Cons x p)
  then show ?case by (cases q) auto
qed

lemma get_kernel_name_prefix:
  "get_kernel_name env bopt op a large ndim wpt =
     variant_prefix bopt large ndim wpt @ CHR ''_'' # (op @ type_to_name env a)"
  by (cases bopt) (simp_all add: get_kernel_name_def concatenate_def variant_prefix_def)

lemma variant_prefix_no_underscore:
  "CHR ''_'' \<notin> set (variant_prefix bopt large ndim wpt)"
proof -
  have "CHR ''_'' \<notin> set (to_string i)" for i by (rule to_string_not) simp
  then show ?thesis by (cases bopt) (simp_all add: variant_prefix_def)
qed

lemma to_string_large_eq:
  "to_string x @ (if l1 then ''large'' else []) = to_string y @ (if l2 then ''large'' else [])
   \<longleftrightarrow> x = y \<and> l1 = l2"
proof -
  have nl: "CHR ''l'' \<notin> set (to_string i)" for i by (rule to_string_not) simp
  have ne: "to_string i \<noteq> to_string j @ ''large''" for i j
  proof
    assume "to_string i = to_string j @ ''large''"
    then have "CHR ''l'' \<in> set (to_string i)" by simp
    then show False using nl by blast
  qed
  show ?thesis
  proof (cases "l1 = l2")
    case True
    then show ?thesis by (auto dest: to_string_inj)
  next
    case False
    then show ?thesis using ne [of x y] ne [of y x] by (cases l1; cases l2) auto
  qed
qed

lemma to_string_not_n: "to_string x @ s \<noteq> CHR ''n'' # t"
proof
  assume e: "to_string x @ s = CHR ''n'' # t"
  obtain c cs where c: "to_string x = c # cs"
    using to_string_nonempty [of x] by (cases "to_string x") auto
  then have "c = CHR ''n''" using e by simp
  then have "CHR ''n'' \<in> set (to_string x)" using c by simp
  moreover have "CHR ''n'' \<notin> set (to_string x)" by (rule to_string_not) simp
  ultimately show False by blast
qed

lemma general_prefix_eq:
  "variant_prefix General l1 n1 w1 = variant_prefix General l2 n2 w2 \<longleftrightarrow>
     l1 = l2 \<and> (if n1 \<le>s 3 then n2 = n1 else \<not> n2 \<le>s 3 \<and> w2 = w1)"
proof -
  define L where "L = (\<lambda>l::bool. if l then ''large'' else [])"
  have le: "to_string x @ L k1 = to_string y @ L k2 \<longleftrightarrow> x = y \<and> k1 = k2" for x y k1 k2
    unfolding L_def by (rule to_string_large_eq)
  have P: "variant_prefix General l n w =
             CHR ''g'' # (if n \<le>s 3 then to_string n @ L l else CHR ''n'' # to_string w @ L l)"
    for l n w by (simp add: variant_prefix_def L_def)
  show ?thesis
  proof (cases "n1 \<le>s 3")
    case a: True
    show ?thesis
    proof (cases "n2 \<le>s 3")
      case True
      have "variant_prefix General l1 n1 w1 = variant_prefix General l2 n2 w2 \<longleftrightarrow>
            to_string n1 @ L l1 = to_string n2 @ L l2"
        by (simp only: P a True if_True list.inject simp_thms)
      also have "\<dots> \<longleftrightarrow> n1 = n2 \<and> l1 = l2" by (rule le)
      also have "\<dots> \<longleftrightarrow> l1 = l2 \<and> n2 = n1" by blast
      finally show ?thesis by (simp only: a if_True)
    next
      case False
      have "n2 \<noteq> n1" using a False by blast
      moreover have "variant_prefix General l1 n1 w1 \<noteq> variant_prefix General l2 n2 w2"
        using to_string_not_n [of n1 "L l1" "to_string w2 @ L l2"]
        by (simp only: P a False if_True if_False list.inject simp_thms not_False_eq_True)
      ultimately show ?thesis by (simp only: a if_True simp_thms)
    qed
  next
    case a: False
    show ?thesis
    proof (cases "n2 \<le>s 3")
      case True
      have "variant_prefix General l1 n1 w1 \<noteq> variant_prefix General l2 n2 w2"
        using to_string_not_n [of n2 "L l2" "to_string w1 @ L l1", symmetric]
        by (simp only: P a True if_True if_False list.inject simp_thms not_False_eq_True)
      then show ?thesis using True by (simp only: a if_False simp_thms)
    next
      case False
      have "variant_prefix General l1 n1 w1 = variant_prefix General l2 n2 w2 \<longleftrightarrow>
            to_string w1 @ L l1 = to_string w2 @ L l2"
        by (simp only: P a False if_False list.inject simp_thms)
      also have "\<dots> \<longleftrightarrow> w1 = w2 \<and> l1 = l2" by (rule le)
      also have "\<dots> \<longleftrightarrow> l1 = l2 \<and> \<not> n2 \<le>s 3 \<and> w2 = w1" using False by blast
      finally show ?thesis by (simp only: a if_False)
    qed
  qed
qed

lemma general_prefix_head: "\<exists>t. variant_prefix General l n w = CHR ''g'' # t"
  by (simp add: variant_prefix_def)

lemma compact_prefix_head:
  "b \<noteq> General \<Longrightarrow> \<exists>t. variant_prefix b l n w = CHR ''s'' # t \<or> variant_prefix b l n w = CHR ''v'' # t"
  by (cases b) (simp_all add: variant_prefix_def)

lemma compact_prefix_eq:
  assumes "b1 \<noteq> General" and "b2 \<noteq> General"
  shows "variant_prefix b1 l1 n1 w1 = variant_prefix b2 l2 n2 w2 \<longleftrightarrow>
         b1 = b2 \<and> (b1 = ScalarScalar \<or> l1 = l2 \<and> (l1 \<or> (1 <s w1) = (1 <s w2)))"
  using assms by (cases b1; cases b2) (auto simp: variant_prefix_def)

lemma variant_prefix_eq_iff:
  "variant_prefix b1 l1 n1 w1 = variant_prefix b2 l2 n2 w2 \<longleftrightarrow>
     b1 = b2 \<and>
     (case b1 of
        ScalarScalar \<Rightarrow> True
      | General \<Rightarrow> l1 = l2 \<and> (if n1 \<le>s 3 then n2 = n1 else \<not> n2 \<le>s 3 \<and> w2 = w1)
      | _ \<Rightarrow> l1 = l2 \<and> (l1 \<or> (1 <s w1) = (1 <s w2)))"
proof (cases "b1 = General")
  case g1: True
  show ?thesis
  proof (cases "b2 = General")
    case True
    then show ?thesis using g1 general_prefix_eq [of l1 n1 w1 l2 n2 w2] by simp
  next
    case False
    obtain t where "variant_prefix b1 l1 n1 w1 = CHR ''g'' # t"
      using general_prefix_head g1 by blast
    moreover obtain u where "variant_prefix b2 l2 n2 w2 = CHR ''s'' # u \<or>
        variant_prefix b2 l2 n2 w2 = CHR ''v'' # u"
      using compact_prefix_head [OF False] by blast
    ultimately have "variant_prefix b1 l1 n1 w1 \<noteq> variant_prefix b2 l2 n2 w2" by auto
    then show ?thesis using g1 False by simp
  qed
next
  case n1: False
  show ?thesis
  proof (cases "b2 = General")
    case True
    obtain t where "variant_prefix b2 l2 n2 w2 = CHR ''g'' # t"
      using general_prefix_head True by blast
    moreover obtain u where "variant_prefix b1 l1 n1 w1 = CHR ''s'' # u \<or>
        variant_prefix b1 l1 n1 w1 = CHR ''v'' # u"
      using compact_prefix_head [OF n1] by blast
    ultimately have "variant_prefix b1 l1 n1 w1 \<noteq> variant_prefix b2 l2 n2 w2" by auto
    then show ?thesis using n1 True by auto
  next
    case False
    show ?thesis
      unfolding compact_prefix_eq [OF n1 False] using n1 by (cases b1) simp_all
  qed
qed


section \<open>The variant key: width suffix\<close>

text \<open>
  C1 (as amended). For the categories ScalarVector, VectorScalar and VectorVector the key
  is the category tag, then the width suffix (\<open>2\<close> when \<open>large\<close>, \<open>n\<close> when not \<open>large\<close> and
  work-per-thread exceeds 1, nothing otherwise), then an underscore, the operator name and
  the element-type tag. For ScalarScalar the key carries no width suffix, whatever the
  width and the work-per-thread are: line 54 excludes that category as well as General.
\<close>

theorem get_kernel_name_width_suffix:
  "get_kernel_name env ScalarScalar op a large ndim wpt =
     ''ss'' @ ''_'' @ op @ type_to_name env a \<and>
   get_kernel_name env ScalarVector op a large ndim wpt =
     ''sv'' @ (if large then ''2'' else if 1 <s wpt then ''n'' else []) @
     ''_'' @ op @ type_to_name env a \<and>
   get_kernel_name env VectorScalar op a large ndim wpt =
     ''vs'' @ (if large then ''2'' else if 1 <s wpt then ''n'' else []) @
     ''_'' @ op @ type_to_name env a \<and>
   get_kernel_name env VectorVector op a large ndim wpt =
     ''vv'' @ (if large then ''2'' else if 1 <s wpt then ''n'' else []) @
     ''_'' @ op @ type_to_name env a"
  by (simp add: get_kernel_name_def concatenate_def)

text \<open>
  The claim as stated fails for ScalarScalar, a non-General category: a wide dispatch gets
  no \<open>2\<close>, and a narrow one with work-per-thread 2 gets no \<open>n\<close>.
\<close>

theorem get_kernel_name_width_suffix_counterexample:
  "ScalarScalar \<noteq> General \<and>
   get_kernel_name (example_backend 1024) ScalarScalar ''Add'' (example_array [] [] 1 1)
     True 0 1 = ''ss_Addfloat32'' \<and>
   get_kernel_name (example_backend 1024) ScalarScalar ''Add'' (example_array [] [] 1 1)
     False 0 2 = ''ss_Addfloat32''"
  by (simp add: get_kernel_name_def concatenate_def example_backend_def)

section \<open>The variant key: when two keys coincide\<close>

text \<open>
  C2 (as amended). The key is a function of its arguments, and two keys are equal exactly
  when the categories are equal, the operator name followed by the element-type tag is
  the same string on both sides, and: for ScalarScalar nothing more; for ScalarVector,
  VectorScalar and VectorVector the widths agree and, when narrow, both or neither
  work-per-thread exceeds 1; for General the widths agree and either both ranks are at
  most 3 and equal, or both exceed 3 and the work-per-thread values are equal.
\<close>

theorem get_kernel_name_eq_iff:
  "get_kernel_name env b1 op1 a1 l1 n1 w1 = get_kernel_name env b2 op2 a2 l2 n2 w2 \<longleftrightarrow>
     b1 = b2 \<and> op1 @ type_to_name env a1 = op2 @ type_to_name env a2 \<and>
     (case b1 of
        ScalarScalar \<Rightarrow> True
      | General \<Rightarrow> l1 = l2 \<and> (if n1 \<le>s 3 then n2 = n1 else \<not> n2 \<le>s 3 \<and> w2 = w1)
      | _ \<Rightarrow> l1 = l2 \<and> (l1 \<or> (1 <s w1) = (1 <s w2)))"
proof -
  have "get_kernel_name env b1 op1 a1 l1 n1 w1 = get_kernel_name env b2 op2 a2 l2 n2 w2 \<longleftrightarrow>
        variant_prefix b1 l1 n1 w1 = variant_prefix b2 l2 n2 w2 \<and>
        op1 @ type_to_name env a1 = op2 @ type_to_name env a2"
    unfolding get_kernel_name_prefix
    by (rule split_at_underscore [OF variant_prefix_no_underscore variant_prefix_no_underscore])
  then show ?thesis unfolding variant_prefix_eq_iff by blast
qed


text \<open>
  The claim as stated fails: two tuples that differ in work-per-thread alone (2 and 4,
  both narrow, VectorVector) get the same key.
\<close>

theorem get_kernel_name_eq_iff_counterexample:
  "(VectorVector, (0 :: cint), False, (2 :: cint), ''Add'', example_array [] [] 1 1) \<noteq>
   (VectorVector, 0, False, 4, ''Add'', example_array [] [] 1 1) \<and>
   get_kernel_name (example_backend 1024) VectorVector ''Add'' (example_array [] [] 1 1)
     False 0 2 =
   get_kernel_name (example_backend 1024) VectorVector ''Add'' (example_array [] [] 1 1)
     False 0 4"
  by (simp add: get_kernel_name_def concatenate_def word_sless_alt Let_def)

section \<open>Index width and work per thread\<close>

text \<open>
  C3. For General, \<open>large\<close> holds exactly when the storage element count of operand a, that
  of operand b, or the element count of the output exceeds 2147483647 (the 32-bit signed
  maximum), and work-per-thread is 4 when \<open>large\<close> and 2 otherwise. For every other
  category, \<open>large\<close> holds exactly when the storage element count of the output exceeds
  4294967295 (the 32-bit unsigned maximum). The comparisons are strict, so a count equal
  to the maximum is narrow and one more is wide.
\<close>

theorem select_width_thresholds:
  "(bopt = General \<longrightarrow>
      fst (select_width env bopt a b out) =
        (2147483647 < unat (data_size a) \<or> 2147483647 < unat (data_size b) \<or>
         2147483647 < unat (array_size out)) \<and>
      snd (select_width env bopt a b out) =
        (if fst (select_width env bopt a b out) then 4 else 2)) \<and>
   (bopt \<noteq> General \<longrightarrow>
      fst (select_width env bopt a b out) = (4294967295 < unat (data_size out)))"
  by (simp add: select_width_def Let_def INT32_MAX_def UINT32_MAX_def word_less_nat_alt)

theorem select_width_thresholds_witness:
  "fst (select_width (example_backend 1024) General
         (example_array [2147483647] [1] 2147483647 2147483647)
         (example_array [2147483647] [2] 2147483647 2147483647)
         (example_array [2147483647] [1] 2147483647 2147483647)) = False \<and>
   fst (select_width (example_backend 1024) General
         (example_array [2147483647] [1] 2147483647 2147483647)
         (example_array [2147483647] [2] 2147483647 2147483648)
         (example_array [2147483647] [1] 2147483647 2147483647)) = True \<and>
   fst (select_width (example_backend 1024) VectorVector
         (example_array [4294967295] [1] 4294967295 4294967295)
         (example_array [4294967295] [1] 4294967295 4294967295)
         (example_array [4294967295] [1] 4294967295 4294967295)) = False \<and>
   fst (select_width (example_backend 1024) VectorVector
         (example_array [4294967295] [1] 4294967296 4294967296)
         (example_array [4294967295] [1] 4294967296 4294967296)
         (example_array [4294967295] [1] 4294967296 4294967296)) = True"
  using select_width_thresholds [of General "example_backend 1024"
          "example_array [2147483647] [1] 2147483647 2147483647"
          "example_array [2147483647] [2] 2147483647 2147483647"
          "example_array [2147483647] [1] 2147483647 2147483647"]
        select_width_thresholds [of General "example_backend 1024"
          "example_array [2147483647] [1] 2147483647 2147483647"
          "example_array [2147483647] [2] 2147483647 2147483648"
          "example_array [2147483647] [1] 2147483647 2147483647"]
        select_width_thresholds [of VectorVector "example_backend 1024"
          "example_array [4294967295] [1] 4294967295 4294967295"
          "example_array [4294967295] [1] 4294967295 4294967295"
          "example_array [4294967295] [1] 4294967295 4294967295"]
        select_width_thresholds [of VectorVector "example_backend 1024"
          "example_array [4294967295] [1] 4294967296 4294967296"
          "example_array [4294967295] [1] 4294967296 4294967296"
          "example_array [4294967295] [1] 4294967296 4294967296"]
  by (simp add: example_array_def)

section \<open>Collapsing\<close>

text \<open>
  C9. The collapser is consulted exactly for General: there \<open>maybe_collapse\<close> returns what
  the collapser returns; for every other category it returns an empty shape and three
  empty stride vectors, and the whole dispatch is the same whatever the collapser is.
\<close>

theorem maybe_collapse_only_general:
  "maybe_collapse env General a b out = collapse_contiguous_dims env a b out \<and>
   (bopt \<noteq> General \<longrightarrow> maybe_collapse env bopt a b out = ([], [], [], [])) \<and>
   (get_binary_op_type env a b \<noteq> General \<longrightarrow>
      binary_op_gpu_inplace (env\<lparr>collapse_contiguous_dims := c\<rparr>) (a # b # ins) (out # outs)
        op s st =
      binary_op_gpu_inplace env (a # b # ins) (out # outs) op s st)"
  by (simp add: binary_op_gpu_inplace.simps maybe_collapse_def select_width_def
      resolve_kernel_def get_kernel_name_def Let_def)

theorem maybe_collapse_only_general_witness:
  "maybe_collapse (example_backend 1024) VectorScalar
     (example_array [3, 4] [4, 1] 12 12) (example_array [3, 4] [0, 0] 12 1)
     (example_array [3, 4] [4, 1] 12 12) = ([], [], [], []) \<and>
   binary_op_gpu_inplace
     ((example_backend 1024)\<lparr>collapse_contiguous_dims := (\<lambda>a b out. ([7], [], [], []))\<rparr>)
     [example_array [3, 4] [4, 1] 12 12, example_array [3, 4] [0, 0] 12 1]
     [example_array [3, 4] [4, 1] 12 12] ''Add'' example_stream (\<lambda>k. []) =
   binary_op_gpu_inplace (example_backend 1024)
     [example_array [3, 4] [4, 1] 12 12, example_array [3, 4] [0, 0] 12 1]
     [example_array [3, 4] [4, 1] 12 12] ''Add'' example_stream (\<lambda>k. [])"
  using maybe_collapse_only_general [of "example_backend 1024"
      "example_array [3, 4] [4, 1] 12 12" "example_array [3, 4] [0, 0] 12 1"
      "example_array [3, 4] [4, 1] 12 12" VectorScalar "\<lambda>a b out. ([7], [], [], [])"
      "[]" "[]" "''Add''" example_stream "\<lambda>k. []"]
  by (simp add: binary_op_gpu_inplace.simps example_backend_def example_array_def)

section \<open>The thread-group size check\<close>

text \<open>
  C4. A dispatch ends with the fatal error exactly when its output is not empty, the
  category is General and the maximum threads per group of the resolved kernel is not
  1024; in every other case, the compact categories included, it returns normally. When
  it ends with an error, no launch has been submitted. The hypothesis keeps to runs in
  which the division of line 125, which precedes the check, is defined.
\<close>

theorem general_path_requires_1024:
  assumes "array_size out \<noteq> 0 \<and> get_binary_op_type env a b = General \<longrightarrow>
           general_dim0 (fst (collapse_contiguous_dims env a b out)) *
           general_dim1 (fst (collapse_contiguous_dims env a b out)) \<noteq> 0"
  shows "fst (binary_op_gpu_inplace env (a # b # ins) (out # outs) op s st) =
           (if array_size out \<noteq> 0 \<and> get_binary_op_type env a b = General \<and>
               maxTotalThreadsPerThreadgroup (dispatch_kernel env a b out outs op s) \<noteq> 1024
            then Some (runtime_error ''[Metal::binary] Must use 1024 sized block'')
            else None) \<and>
         (fst (binary_op_gpu_inplace env (a # b # ins) (out # outs) op s st) \<noteq> None \<longrightarrow>
            submissions
              (issued s st (snd (binary_op_gpu_inplace env (a # b # ins) (out # outs) op s st)))
            = [])"
proof (cases rule: inplace_cases [of out env a b ins outs op s st])
  case empty
  then show ?thesis by simp
next
  case (stop cmds)
  then show ?thesis using assms by simp
next
  case (abort cmds)
  then show ?thesis by (simp add: issued_encode)
next
  case (general cmds)
  then show ?thesis by simp
next
  case (compact cmds)
  then show ?thesis by simp
qed

theorem general_path_requires_1024_witness:
  "fst (binary_op_gpu_inplace (example_backend 512)
          [example_array [3, 4] [4, 1] 12 12, example_array [3, 4] [1, 3] 12 12]
          [example_array [3, 4] [4, 1] 12 12] ''Add'' example_stream (\<lambda>k. [])) =
     Some (runtime_error ''[Metal::binary] Must use 1024 sized block'') \<and>
   submissions (issued example_stream (\<lambda>k. [])
     (snd (binary_op_gpu_inplace (example_backend 512)
          [example_array [3, 4] [4, 1] 12 12, example_array [3, 4] [1, 3] 12 12]
          [example_array [3, 4] [4, 1] 12 12] ''Add'' example_stream (\<lambda>k. [])))) = [] \<and>
   fst (binary_op_gpu_inplace (example_backend 512)
          [example_array [3, 4] [4, 1] 12 12, example_array [3, 4] [0, 0] 12 1]
          [example_array [3, 4] [4, 1] 12 12] ''Add'' example_stream (\<lambda>k. [])) = None"
  using general_path_requires_1024 [of "example_array [3, 4] [4, 1] 12 12" "example_backend 512"
      "example_array [3, 4] [4, 1] 12 12" "example_array [3, 4] [1, 3] 12 12"
      "[]" "[]" "''Add''" example_stream "\<lambda>k. []"]
    general_path_requires_1024 [of "example_array [3, 4] [4, 1] 12 12" "example_backend 512"
      "example_array [3, 4] [4, 1] 12 12" "example_array [3, 4] [0, 0] 12 1"
      "[]" "[]" "''Add''" example_stream "\<lambda>k. []"]
  by (simp add: example_backend_def example_array_def general_dim0_def general_dim1_def
      dispatch_kernel_def resolve_kernel_def)


section \<open>One submission per dispatch\<close>

text \<open>
  C5 (as amended). With an empty first output the dispatcher returns at once and leaves the
  device state as it was. Otherwise, whenever it returns normally, it has appended
  exactly one kernel submission to the encoder of the given stream. In every case the
  encoders of all other streams are unchanged and what the encoder of the given stream
  held before is still there, in front. A dispatch that aborts (C4) submits nothing.
\<close>

theorem dispatch_submits_once:
  "(array_size out = 0 \<longrightarrow>
      binary_op_gpu_inplace env (a # b # ins) (out # outs) op s st = (None, st)) \<and>
   (array_size out \<noteq> 0 \<and>
    fst (binary_op_gpu_inplace env (a # b # ins) (out # outs) op s st) = None \<longrightarrow>
      length (submissions
        (issued s st (snd (binary_op_gpu_inplace env (a # b # ins) (out # outs) op s st))))
      = 1) \<and>
   (\<forall>key. key \<noteq> (device s, index s) \<longrightarrow>
      snd (binary_op_gpu_inplace env (a # b # ins) (out # outs) op s st) key = st key) \<and>
   take (length (st (device s, index s)))
     (snd (binary_op_gpu_inplace env (a # b # ins) (out # outs) op s st) (device s, index s))
     = st (device s, index s)"
proof (cases rule: inplace_cases [of out env a b ins outs op s st])
  case empty
  then show ?thesis by simp
next
  case (stop cmds)
  then show ?thesis by (simp add: encode_other encode_same)
next
  case (abort cmds)
  then show ?thesis by (simp add: encode_other encode_same)
next
  case (general cmds)
  then show ?thesis by (simp add: encode_other encode_same issued_encode)
next
  case (compact cmds)
  then show ?thesis by (simp add: encode_other encode_same issued_encode)
qed

theorem dispatch_submits_once_witness:
  "length (submissions (issued example_stream (\<lambda>k. [])
     (snd (binary_op_gpu_inplace (example_backend 1024)
          [example_array [3, 4] [4, 1] 12 12, example_array [3, 4] [1, 3] 12 12]
          [example_array [3, 4] [4, 1] 12 12] ''Add'' example_stream (\<lambda>k. []))))) = 1 \<and>
   snd (binary_op_gpu_inplace (example_backend 1024)
          [example_array [3, 4] [4, 1] 12 12, example_array [3, 4] [1, 3] 12 12]
          [example_array [3, 4] [4, 1] 12 12] ''Add'' example_stream (\<lambda>k. [])) (1, 0) = [] \<and>
   binary_op_gpu_inplace (example_backend 1024)
          [example_array [0, 4] [4, 1] 0 0, example_array [0, 4] [1, 3] 0 0]
          [example_array [0, 4] [4, 1] 0 0] ''Add'' example_stream (\<lambda>k. []) = (None, \<lambda>k. [])"
  using dispatch_submits_once [of "example_array [3, 4] [4, 1] 12 12" "example_backend 1024"
      "example_array [3, 4] [4, 1] 12 12" "example_array [3, 4] [1, 3] 12 12"
      "[]" "[]" "''Add''" example_stream "\<lambda>k. []"]
    dispatch_submits_once [of "example_array [0, 4] [4, 1] 0 0" "example_backend 1024"
      "example_array [0, 4] [4, 1] 0 0" "example_array [0, 4] [1, 3] 0 0"
      "[]" "[]" "''Add''" example_stream "\<lambda>k. []"]
  by (simp add: binary_op_gpu_inplace.simps example_backend_def example_array_def
      example_stream_def general_dim0_def general_dim1_def maybe_collapse_def select_width_def
      resolve_kernel_def INT32_MAX_def Let_def issued_def encode_def)


text \<open>
  The claim as stated fails where the general path aborts: the output holds 12 elements,
  the kernel allows 512 threads per group, and no submission is enqueued.
\<close>

theorem dispatch_submits_once_counterexample:
  "array_size (example_array [3, 4] [4, 1] 12 12) \<noteq> 0 \<and>
   submissions (issued example_stream (\<lambda>k. [])
     (snd (binary_op_gpu_inplace (example_backend 512)
          [example_array [3, 4] [4, 1] 12 12, example_array [3, 4] [1, 3] 12 12]
          [example_array [3, 4] [4, 1] 12 12] ''Add'' example_stream (\<lambda>k. [])))) = []"
  by (simp add: binary_op_gpu_inplace.simps example_backend_def example_array_def
      example_stream_def general_dim0_def general_dim1_def maybe_collapse_def select_width_def
      resolve_kernel_def INT32_MAX_def Let_def issued_def encode_def)


section \<open>The order of the argument bindings\<close>

text \<open>
  C6 (as amended). A non-empty dispatch binds operand a in slot 0, operand b in slot 1 and
  the output in slot 2, then the second output in slot 3 when there are exactly two
  outputs, and from the next slot on: on the General path with rank above 3 the collapsed
  shape, the strides of a, the strides of b and the rank as a 32-bit value; on the General
  path with rank at most 3 the strides of a and the strides of b; on the compact path the
  storage element count of the output (\<^verbatim>\<open>data_size\<close>, not the element count), as a 64-bit
  value when wide and cut to 32 bits otherwise. The hypothesis on the General path keeps to
  runs in which the division of line 125, which precedes these bindings, is defined.
\<close>

theorem argument_binding_order:
  assumes "array_size out \<noteq> 0"
    and "collapse_contiguous_dims env a b out = (cshape, sa, sb, so)"
    and "get_binary_op_type env a b = General \<longrightarrow>
         general_dim0 cshape * general_dim1 cshape \<noteq> 0"
  shows "bindings (issued s st
           (snd (binary_op_gpu_inplace env (a # b # ins) (out # outs) op s st))) =
     [set_input_array a 0, set_input_array b 1, set_output_array out 2] @
     (if length outs = 1 then [set_output_array (outs ! 0) 3] else []) @
     (let n = (if length outs = 1 then 4 else 3) in
      if get_binary_op_type env a b = General
      then (if 3 < length cshape
            then [set_vector_bytes (ShapeBytes cshape) n,
                  set_vector_bytes (StridesBytes sa) (n + 1),
                  set_vector_bytes (StridesBytes sb) (n + 2),
                  set_bytes_int (word_of_nat (length cshape)) (n + 3)]
            else [set_vector_bytes (StridesBytes sa) n,
                  set_vector_bytes (StridesBytes sb) (n + 1)])
      else if 4294967295 < unat (data_size out)
           then [set_bytes_int64 (data_size out) n]
           else [set_bytes_int (ucast (data_size out)) n])"
proof (cases "get_binary_op_type env a b = General")
  case True
  obtain large wpt where w: "select_width env General a b out = (large, wpt)"
    by (cases "select_width env General a b out") auto
  have nz: "general_dim0 cshape * general_dim1 cshape \<noteq> 0" using assms(3) True by simp
  show ?thesis
    unfolding inplace_general [OF True assms(1) assms(2) nz w refl]
    using True
    by (simp add: Let_def issued_encode bindings_def bound_arrays_def next_slot_def)
next
  case False
  obtain large wpt where
    w: "select_width env (get_binary_op_type env a b) a b out = (large, wpt)"
    by (cases "select_width env (get_binary_op_type env a b) a b out") auto
  have l: "large = (4294967295 < unat (data_size out))"
    using w False by (simp add: select_width_def UINT32_MAX_def word_less_nat_alt)
  show ?thesis
    unfolding inplace_compact [OF False assms(1) w refl]
    using False l
    by (simp add: Let_def issued_encode bindings_def bound_arrays_def next_slot_def)
qed

theorem argument_binding_order_witness:
  "bindings (issued example_stream (\<lambda>k. [])
     (snd (binary_op_gpu_inplace (example_backend 1024)
        [example_array [2, 1, 3, 1, 2] [6, 6, 2, 2, 1] 12 12,
         example_array [2, 1, 3, 1, 2] [1, 2, 2, 6, 6] 12 12]
        [example_array [2, 1, 3, 1, 2] [6, 6, 2, 2, 1] 12 12,
         example_array [2, 1, 3, 1, 2] [6, 6, 2, 2, 1] 12 12]
        ''DivMod'' example_stream (\<lambda>k. [])))) =
   [set_input_array (example_array [2, 1, 3, 1, 2] [6, 6, 2, 2, 1] 12 12) 0,
    set_input_array (example_array [2, 1, 3, 1, 2] [1, 2, 2, 6, 6] 12 12) 1,
    set_output_array (example_array [2, 1, 3, 1, 2] [6, 6, 2, 2, 1] 12 12) 2,
    set_output_array (example_array [2, 1, 3, 1, 2] [6, 6, 2, 2, 1] 12 12) 3,
    set_vector_bytes (ShapeBytes [2, 1, 3, 1, 2]) 4,
    set_vector_bytes (StridesBytes [6, 6, 2, 2, 1]) 5,
    set_vector_bytes (StridesBytes [1, 2, 2, 6, 6]) 6,
    set_bytes_int 5 7]"
  using argument_binding_order [of "example_array [2, 1, 3, 1, 2] [6, 6, 2, 2, 1] 12 12"
      "example_backend 1024"
      "example_array [2, 1, 3, 1, 2] [6, 6, 2, 2, 1] 12 12"
      "example_array [2, 1, 3, 1, 2] [1, 2, 2, 6, 6] 12 12"
      "[2, 1, 3, 1, 2]" "[6, 6, 2, 2, 1]" "[1, 2, 2, 6, 6]" "[6, 6, 2, 2, 1]"
      example_stream "\<lambda>k. []" "[]" "[example_array [2, 1, 3, 1, 2] [6, 6, 2, 2, 1] 12 12]"
      "''DivMod''"]
  by (simp add: example_backend_def example_array_def general_dim0_def general_dim1_def)


text \<open>
  The claim as stated fails where the two counts differ: two broadcast scalars of shape
  3 by 4 give an output of 12 elements on one stored element, and the count bound in
  slot 3 is 1.
\<close>

theorem argument_binding_order_counterexample:
  "array_size (example_array [3, 4] [0, 0] 12 1) = 12 \<and>
   bindings (issued example_stream (\<lambda>k. [])
     (snd (binary_op_gpu_inplace (example_backend 1024)
        [example_array [3, 4] [0, 0] 12 1, example_array [3, 4] [0, 0] 12 1]
        [example_array [3, 4] [0, 0] 12 1] ''Add'' example_stream (\<lambda>k. [])))) =
   [set_input_array (example_array [3, 4] [0, 0] 12 1) 0,
    set_input_array (example_array [3, 4] [0, 0] 12 1) 1,
    set_output_array (example_array [3, 4] [0, 0] 12 1) 2,
    set_bytes_int 1 3]"
  by (simp add: binary_op_gpu_inplace.simps example_backend_def example_array_def
      example_stream_def maybe_collapse_def select_width_def
      resolve_kernel_def UINT32_MAX_def Let_def issued_def encode_def bindings_def)

section \<open>The launch geometry of the general path\<close>

text \<open>
  C7. On the General path with a non-empty output and positive collapsed dimension sizes,
  let dim0 be the last collapsed dimension size (1 at rank 0), dim1 the one before it
  (1 below rank 2) and work-per-thread the value chosen for the dispatch. The grid that
  is submitted (one is, exactly when the kernel allows 1024 threads per group) has first
  component dim0, replaced by the ceiling of dim0 divided by work-per-thread when the
  rank exceeds 3, second component dim1 and third component the output's element count
  divided by dim0 times dim1; the thread-group size is what the block-size heuristic
  gives for these three numbers.
\<close>

theorem general_launch_geometry:
  assumes "get_binary_op_type env a b = General" and "array_size out \<noteq> 0"
    and "collapse_contiguous_dims env a b out = (cshape, sa, sb, so)"
    and "\<forall>d \<in> set cshape. 0 <s d"
  defines "dim0 \<equiv> (if cshape = [] then 1 else nat (sint (last cshape)))"
    and "dim1 \<equiv> (if length cshape < 2 then 1 else nat (sint (cshape ! (length cshape - 2))))"
    and "wpt \<equiv> snd (select_width env General a b out)"
  shows "\<exists>g0 g1 g2.
     submissions (issued s st
       (snd (binary_op_gpu_inplace env (a # b # ins) (out # outs) op s st))) =
       (if maxTotalThreadsPerThreadgroup (dispatch_kernel env a b out outs op s) = 1024
        then [((g0, g1, g2), get_block_dims env g0 g1 g2)] else []) \<and>
     int (unat g0) =
       (if 3 < length cshape then \<lceil>real dim0 / real_of_int (sint wpt)\<rceil> else int dim0) \<and>
     unat g1 = dim1 \<and>
     unat g2 = unat (array_size out) div (dim0 * dim1)"
proof -
  obtain large where w: "select_width env General a b out = (large, wpt)"
    unfolding wpt_def by (cases "select_width env General a b out") auto
  note wp = general_work_per_thread [OF w]
  note d = general_dims_positive [OF assms(4)]
  define d0 where "d0 = general_dim0 cshape"
  define d1 where "d1 = general_dim1 cshape"
  have u0: "unat d0 = dim0" and u1: "unat d1 = dim1"
    unfolding d0_def d1_def dim0_def dim1_def using d(1,2) by simp_all
  have um: "unat (d0 * d1) = dim0 * dim1"
    using unat_mult_small [of d0 d1] d(4,6) u0 u1 by (simp add: d0_def d1_def)
  have "0 < dim0 * dim1" using d(3,5) u0 u1 by (simp add: d0_def d1_def)
  then have nz: "general_dim0 cshape * general_dim1 cshape \<noteq> 0"
    using um unfolding d0_def d1_def by (metis unat_0 less_numeral_extra(3))
  define g0 where "g0 = (if 3 < length cshape then (d0 + scast wpt - 1) div scast wpt else d0)"
  define g2 where "g2 = array_size out div (d0 * d1)"
  have ug2: "unat g2 = unat (array_size out) div (dim0 * dim1)"
    unfolding g2_def by (simp add: unat_div um)
  have ug0: "int (unat g0) =
       (if 3 < length cshape then \<lceil>real dim0 / real_of_int (sint wpt)\<rceil> else int dim0)"
  proof (cases "3 < length cshape")
    case False
    then show ?thesis by (simp add: g0_def u0)
  next
    case True
    have wpos: "0 < unat (scast wpt :: 64 word)" and wlt: "unat (scast wpt :: 64 word) < 2 ^ 31"
      using wp by (simp_all split: if_splits)
    have sw: "sint wpt = int (unat (scast wpt :: 64 word))" using wp by (simp split: if_splits)
    have "unat g0 = (dim0 + unat (scast wpt :: 64 word) - 1) div unat (scast wpt :: 64 word)"
      using unat_ceil_word [of d0 "scast wpt", OF _ wpos wlt] d(4) True
      by (simp add: g0_def u0 [unfolded d0_def] d0_def)
    then show ?thesis
      using ceiling_div_nat [OF wpos, of dim0] True by (simp add: sw)
  qed
  have "submissions (issued s st
       (snd (binary_op_gpu_inplace env (a # b # ins) (out # outs) op s st))) =
       (if maxTotalThreadsPerThreadgroup (dispatch_kernel env a b out outs op s) = 1024
        then [((g0, d1, g2), get_block_dims env g0 d1 g2)] else [])"
    unfolding inplace_general [OF assms(1) assms(2) assms(3) nz w refl]
    by (simp add: Let_def issued_encode submissions_append submissions_bound_arrays
        g0_def g2_def d0_def d1_def)
  then show ?thesis using ug0 u1 ug2 by blast
qed

theorem general_launch_geometry_witness:
  "\<exists>g0 g1 g2.
     submissions (issued example_stream (\<lambda>k. [])
     (snd (binary_op_gpu_inplace (example_backend 1024)
        [example_array [2, 1, 3, 1, 7] [21, 21, 7, 7, 1] 42 42,
         example_array [2, 1, 3, 1, 7] [1, 2, 2, 6, 6] 42 42]
        [example_array [2, 1, 3, 1, 7] [21, 21, 7, 7, 1] 42 42]
        ''Add'' example_stream (\<lambda>k. [])))) = [((g0, g1, g2), 1, 1, 1)] \<and>
     int (unat g0) = 4 \<and> unat g1 = 1 \<and> unat g2 = 6"
  using general_launch_geometry [of "example_backend 1024"
      "example_array [2, 1, 3, 1, 7] [21, 21, 7, 7, 1] 42 42"
      "example_array [2, 1, 3, 1, 7] [1, 2, 2, 6, 6] 42 42"
      "example_array [2, 1, 3, 1, 7] [21, 21, 7, 7, 1] 42 42"
      "[2, 1, 3, 1, 7]" "[21, 21, 7, 7, 1]" "[1, 2, 2, 6, 6]" "[21, 21, 7, 7, 1]"
      example_stream "\<lambda>k. []" "[]" "[]" "''Add''"]
  by (simp add: example_backend_def example_array_def dispatch_kernel_def resolve_kernel_def
      select_width_def INT32_MAX_def word_sless_alt)

section \<open>The launch geometry of the compact path\<close>

text \<open>
  C8 (as amended). On the compact path (every category but General) with a non-empty
  output and a positive work-per-thread, the required thread count is the ceiling of the
  storage element count of the output (\<^verbatim>\<open>data_size\<close>, not the element count) divided by
  work-per-thread; the thread-group size is the minimum of the kernel's maximum threads
  per group and that count; the grid is (count, 1, 1) when narrow and what the 2D-grid
  heuristic gives when wide.
\<close>

theorem compact_launch_geometry:
  assumes "get_binary_op_type env a b \<noteq> General" and "array_size out \<noteq> 0"
    and "0 <s get_work_per_thread env (dtype a) (data_size out)"
  defines "wpt \<equiv> get_work_per_thread env (dtype a) (data_size out)"
  shows "\<exists>nthreads grid.
     submissions (issued s st
       (snd (binary_op_gpu_inplace env (a # b # ins) (out # outs) op s st))) =
       [(grid, (min (maxTotalThreadsPerThreadgroup (dispatch_kernel env a b out outs op s))
                  nthreads, 1, 1))] \<and>
     int (unat nthreads) = \<lceil>real (unat (data_size out)) / real_of_int (sint wpt)\<rceil> \<and>
     grid = (if 4294967295 < unat (data_size out)
             then get_2d_grid_dims env (shape out) (strides out) wpt
             else (nthreads, 1, 1))"
proof -
  define large where "large = (4294967295 < unat (data_size out))"
  have w: "select_width env (get_binary_op_type env a b) a b out = (large, wpt)"
    using assms(1)
    by (simp add: select_width_def wpt_def large_def UINT32_MAX_def word_less_nat_alt)
  have spos: "0 < sint wpt" using assms(3) by (simp add: wpt_def word_sless_alt)
  then have uw: "unat (scast wpt :: 64 word) = nat (sint wpt)"
    by (simp add: unat_scast_nonneg)
  then have wpos: "0 < unat (scast wpt :: 64 word)" using spos by simp
  define nthreads where "nthreads = ceildiv (data_size out) (scast wpt)"
  have "int (unat nthreads) = \<lceil>real (unat (data_size out)) / real (unat (scast wpt :: 64 word))\<rceil>"
    unfolding nthreads_def unat_ceildiv [OF wpos] by (rule ceiling_div_nat [OF wpos])
  moreover have "real (unat (scast wpt :: 64 word)) = real_of_int (sint wpt)"
    unfolding uw using spos by simp
  ultimately have n:
    "int (unat nthreads) = \<lceil>real (unat (data_size out)) / real_of_int (sint wpt)\<rceil>"
    by (simp only:)
  have m: "min k nthreads = (if nthreads < k then nthreads else k)" for k :: "64 word"
    by (auto simp: min_def)
  have "submissions (issued s st
       (snd (binary_op_gpu_inplace env (a # b # ins) (out # outs) op s st))) =
       [(if large then get_2d_grid_dims env (shape out) (strides out) wpt else (nthreads, 1, 1),
         (min (maxTotalThreadsPerThreadgroup (dispatch_kernel env a b out outs op s))
                  nthreads, 1, 1))]"
    unfolding inplace_compact [OF assms(1) assms(2) w refl] m
    by (simp add: Let_def issued_encode submissions_append submissions_bound_arrays nthreads_def)
  then show ?thesis using n unfolding large_def by blast
qed

theorem compact_launch_geometry_witness:
  "\<exists>nthreads.
     submissions (issued example_stream (\<lambda>k. [])
     (snd (binary_op_gpu_inplace (example_backend 1024)
        [example_array [1000000] [1] 1000000 1000000, example_array [1] [0] 1 1]
        [example_array [1000000] [1] 1000000 1000000]
        ''Add'' example_stream (\<lambda>k. [])))) = [((nthreads, 1, 1), (min 1024 nthreads, 1, 1))] \<and>
     int (unat nthreads) = 500000"
  using compact_launch_geometry [of "example_backend 1024"
      "example_array [1000000] [1] 1000000 1000000" "example_array [1] [0] 1 1"
      "example_array [1000000] [1] 1000000 1000000"
      example_stream "\<lambda>k. []" "[]" "[]" "''Add''"]
  by (simp add: example_backend_def example_array_def dispatch_kernel_def resolve_kernel_def
      word_sless_alt)


text \<open>
  The claim as stated fails where the two counts differ: for two broadcast scalars of
  shape 3 by 4 the output holds 12 elements, work-per-thread is 1, and the grid is
  (1, 1, 1), not (12, 1, 1).
\<close>

theorem compact_launch_geometry_counterexample:
  "array_size (example_array [3, 4] [0, 0] 12 1) = 12 \<and>
   get_work_per_thread (example_backend 1024) (dtype (example_array [3, 4] [0, 0] 12 1))
     (data_size (example_array [3, 4] [0, 0] 12 1)) = 1 \<and>
   submissions (issued example_stream (\<lambda>k. [])
     (snd (binary_op_gpu_inplace (example_backend 1024)
        [example_array [3, 4] [0, 0] 12 1, example_array [3, 4] [0, 0] 12 1]
        [example_array [3, 4] [0, 0] 12 1] ''Add'' example_stream (\<lambda>k. [])))) =
   [((1, 1, 1), (1, 1, 1))]"
  by (simp add: binary_op_gpu_inplace.simps example_backend_def example_array_def
      example_stream_def maybe_collapse_def select_width_def ceildiv_def
      resolve_kernel_def UINT32_MAX_def Let_def issued_def encode_def)

section \<open>The bitwise operators\<close>

text \<open>
  C10. Whatever the operator is, \<^verbatim>\<open>BitwiseBinary::eval_gpu\<close> is the one call
  \<^verbatim>\<open>binary_op_gpu(inputs, out, name())\<close>.
\<close>

theorem BitwiseBinary_eval_gpu_single_call:
  "BitwiseBinary_eval_gpu env op' inputs out st =
     binary_op_gpu env inputs out (name env op') st"
  by (cases op') (simp_all add: BitwiseBinary_eval_gpu_def)

end
